theory Spec2Isabelle
  imports
    Main
    "HOL-Library.AList"
    "HOL-Library.Char_ord"
    "HOL-Library.List_Lexorder"
    "HOL-Library.Product_Lexorder"
    "HOL-Library.Multiset"
    "HOL-Library.Code_Target_Nat"
begin

section \<open>Data model of \<open>backend/server.py\<close>\<close>

text \<open>
  The pydantic models of the server become records. A field whose name is taken in HOL
  carries a suffix: \<open>id'\<close> for \<open>id\<close>, \<open>answer_value\<close> for \<open>Answer.value\<close>.
  Python's \<open>int\<close> is unbounded, hence \<open>int\<close>; \<open>str\<close> is \<open>string\<close>.
\<close>

text \<open>
  A \<open>datetime\<close> value: the calendar fields, and the fixed offset of its \<open>tzinfo\<close> in
  microseconds east of UTC (\<open>None\<close> for a naive value, \<open>Some 0\<close> for \<open>timezone.utc\<close>).
\<close>

record datetime =
  year :: nat
  month :: nat
  day :: nat
  hour :: nat
  minute :: nat
  second :: nat
  microsecond :: nat
  tzinfo :: "int option"

record Answer =
  question_id :: int
  answer_value :: int

record AssessmentSubmission =
  name :: string
  age :: string
  gender :: string
  date :: string
  mobile :: string
  answers :: "Answer list"

record Assessment =
  id' :: string
  name :: string
  age :: string
  gender :: string
  date :: string
  mobile :: string
  answers :: "Answer list"
  score :: int
  result :: string
  timestamp :: datetime

record ContactRequest =
  id' :: string
  name :: string
  mobile :: string
  email :: "string option"
  message :: string
  timestamp :: datetime

record ContactRequestCreate =
  name :: string
  mobile :: string
  email :: "string option"
  message :: string

record AdminLogin =
  username :: string
  password :: string

record AdminLoginResponse =
  success :: bool
  message :: string

text \<open>
  Every way a request can fail is a value. \<open>HTTPException\<close> is raised by a handler with
  its status code; \<open>RequestValidationError\<close> is what the framework raises when the body
  does not validate against the handler's model (answered with status 422); an exception
  that no handler catches (\<open>ValueError\<close>, \<open>KeyError\<close>) is answered with status 500.
\<close>

datatype failure =
    HTTPException nat string
  | RequestValidationError
  | ValueError
  | KeyError

fun status_code :: "failure \<Rightarrow> nat" where
  "status_code (HTTPException code detail) = code"
| "status_code RequestValidationError = 422"
| "status_code ValueError = 500"
| "status_code KeyError = 500"

definition http_status :: "failure + 'a \<Rightarrow> nat" where
  "http_status r = (case r of Inl e \<Rightarrow> status_code e | Inr v \<Rightarrow> 200)"

section \<open>Python values, documents and the store\<close>

text \<open>
  The values that travel through the handlers as plain Python objects: a decoded JSON
  body, a dictionary produced by \<open>model_dump\<close>, a document of the database, a cell of
  the exported sheet. A \<open>dict\<close> keeps its insertion order, so it is an association list
  read with \<open>map_of\<close> and written with \<open>AList.update\<close> (which, like Python, replaces the
  value of a key in place and appends a new key at the end). Floating-point numbers are
  outside the model.
\<close>

datatype pyval =
    PNone
  | PBool bool
  | PInt int
  | PStr string
  | PDatetime datetime
  | PObjectId string
  | PList "pyval list"
  | PDict "(string \<times> pyval) list"

type_synonym pydict = "(string \<times> pyval) list"


text \<open>
  The database: the two collections the server writes, each the list of its documents in
  insertion order.
\<close>

record db =
  assessments :: "pydict list"
  contact_requests :: "pydict list"

text \<open>
  What a handler reads from its environment while it serves one request: the string of
  \<open>uuid.uuid4()\<close>, the reading of \<open>datetime.now(timezone.utc)\<close>, and the \<open>ObjectId\<close> the
  driver gives a document inserted without an \<open>_id\<close>.
\<close>

record env =
  uuid4 :: string
  utcnow :: datetime
  object_id :: string

text \<open>
  \<open>insert_one\<close>: the driver adds an \<open>_id\<close> to a document that has none, and the
  collection grows by that document. The database is taken to be reachable and to
  accept the document; a failure of the driver is outside the model.
\<close>

definition insert_one :: "pydict list \<Rightarrow> string \<Rightarrow> pydict \<Rightarrow> pydict list" where
  "insert_one coll oid doc =
     coll @ [if map_of doc ''_id'' = None then doc @ [(''_id'', PObjectId oid)] else doc]"

section \<open>Dates and times\<close>

text \<open>The range checks of the \<open>datetime\<close> constructor.\<close>

definition is_leap :: "nat \<Rightarrow> bool" where
  "is_leap y = (y mod 4 = 0 \<and> (y mod 100 \<noteq> 0 \<or> y mod 400 = 0))"

definition days_in_month :: "nat \<Rightarrow> nat \<Rightarrow> nat" where
  "days_in_month y m =
     (if m = 2 then (if is_leap y then 29 else 28)
      else if m = 4 \<or> m = 6 \<or> m = 9 \<or> m = 11 then 30 else 31)"

text \<open>A \<open>timezone\<close> offset lies strictly between minus and plus 24 hours.\<close>

definition valid_offset :: "int \<Rightarrow> bool" where
  "valid_offset off = (- 86400000000 < off \<and> off < 86400000000)"

definition valid_datetime :: "datetime \<Rightarrow> bool" where
  "valid_datetime t =
     (1 \<le> year t \<and> year t \<le> 9999 \<and> 1 \<le> month t \<and> month t \<le> 12
      \<and> 1 \<le> day t \<and> day t \<le> days_in_month (year t) (month t)
      \<and> hour t < 24 \<and> minute t < 60 \<and> second t < 60 \<and> microsecond t < 1000000
      \<and> (case tzinfo t of None \<Rightarrow> True | Some off \<Rightarrow> valid_offset off))"

text \<open>A reading of \<open>datetime.now(timezone.utc)\<close>: a valid value whose zone is UTC.\<close>

definition utc_datetime :: "datetime \<Rightarrow> bool" where
  "utc_datetime t = (valid_datetime t \<and> tzinfo t = Some 0)"



text \<open>\<open>'%0wd' % n\<close>: the decimal digits of \<open>n\<close>, padded with zeros to \<open>w\<close> characters.\<close>

definition digit_char :: "nat \<Rightarrow> char" where
  "digit_char n = ''0123456789'' ! n"

fun dec :: "nat \<Rightarrow> string" where
  "dec n = (if n < 10 then [digit_char n] else dec (n div 10) @ [digit_char (n mod 10)])"

declare dec.simps [simp del]

definition fmt :: "nat \<Rightarrow> nat \<Rightarrow> string" where
  "fmt w n = replicate (w - length (dec n)) (CHR ''0'') @ dec n"

text \<open>
  \<open>_format_offset\<close>: sign, hours and minutes, then seconds and microseconds when
  they are not zero.
\<close>

definition format_offset :: "int option \<Rightarrow> string" where
  "format_offset off =
     (case off of
        None \<Rightarrow> []
      | Some d \<Rightarrow>
          (let a = nat \<bar>d\<bar>;
               hh = a div 3600000000;
               mm = a mod 3600000000 div 60000000;
               ss = a mod 60000000 div 1000000;
               us = a mod 1000000
           in (if d < 0 then ''-'' else ''+'') @ fmt 2 hh @ '':'' @ fmt 2 mm
              @ (if ss \<noteq> 0 \<or> us \<noteq> 0
                 then '':'' @ fmt 2 ss @ (if us \<noteq> 0 then ''.'' @ fmt 6 us else [])
                 else [])))"

text \<open>\<open>datetime.isoformat()\<close> with its defaults: separator \<open>T\<close>, and the microseconds
  printed only when they are not zero.\<close>

definition isoformat :: "datetime \<Rightarrow> string" where
  "isoformat t =
     fmt 4 (year t) @ ''-'' @ fmt 2 (month t) @ ''-'' @ fmt 2 (day t) @ ''T''
     @ fmt 2 (hour t) @ '':'' @ fmt 2 (minute t) @ '':'' @ fmt 2 (second t)
     @ (if microsecond t \<noteq> 0 then ''.'' @ fmt 6 (microsecond t) else [])
     @ format_offset (tzinfo t)"

text \<open>
  \<open>strftime('%Y-%m-%d %H:%M:%S')\<close>. The C library under \<open>%Y\<close> prints a year below 1000
  with or without leading zeros, depending on the platform; the definition pads, and
  what is proved about the text is proved from the year 1000 on.
\<close>

definition strftime_ymd_hms :: "datetime \<Rightarrow> string" where
  "strftime_ymd_hms t =
     fmt 4 (year t) @ ''-'' @ fmt 2 (month t) @ ''-'' @ fmt 2 (day t) @ '' ''
     @ fmt 2 (hour t) @ '':'' @ fmt 2 (minute t) @ '':'' @ fmt 2 (second t)"

text \<open>
  \<open>datetime.fromisoformat\<close>, for the grammar that inverts \<open>isoformat\<close>:
  \<open>YYYY-MM-DD[*HH[:MM[:SS[.fff[fff]]]][+HH:MM[:SS[.ffffff]]]]\<close>, where \<open>*\<close> is any one
  character. A component is read from decimal digits only. \<open>None\<close> is \<open>ValueError\<close>.
\<close>

definition digit_val :: "char \<Rightarrow> nat option" where
  "digit_val c =
     (let n = (of_char c :: nat) in if 48 \<le> n \<and> n \<le> 57 then Some (n - 48) else None)"

fun parse_digits :: "nat \<Rightarrow> string \<Rightarrow> nat option" where
  "parse_digits acc [] = Some acc"
| "parse_digits acc (c # cs) =
     (case digit_val c of None \<Rightarrow> None | Some d \<Rightarrow> parse_digits (10 * acc + d) cs)"

definition parse_isoformat_date :: "string \<Rightarrow> (nat \<times> nat \<times> nat) option" where
  "parse_isoformat_date s =
     (if length s = 10 \<and> s ! 4 = CHR ''-'' \<and> s ! 7 = CHR ''-''
      then (case (parse_digits 0 (take 4 s), parse_digits 0 (take 2 (drop 5 s)),
                  parse_digits 0 (drop 8 s)) of
              (Some y, Some m, Some d) \<Rightarrow> Some (y, m, d)
            | _ \<Rightarrow> None)
      else None)"

text \<open>
  \<open>_parse_hh_mm_ss_ff\<close>: \<open>HH\<close>, \<open>HH:MM\<close>, \<open>HH:MM:SS\<close>, and a fraction of three or of six
  digits after the seconds; three digits are milliseconds.
\<close>

definition parse_hh_mm_ss_ff :: "string \<Rightarrow> (nat \<times> nat \<times> nat \<times> nat) option" where
  "parse_hh_mm_ss_ff s =
     (let n = length s in
      if \<not> (n = 2 \<or> n = 5 \<or> n = 8 \<or> n = 12 \<or> n = 15) then None
      else if (5 \<le> n \<and> s ! 2 \<noteq> CHR '':'') \<or> (8 \<le> n \<and> s ! 5 \<noteq> CHR '':'')
              \<or> (12 \<le> n \<and> s ! 8 \<noteq> CHR ''.'') then None
      else (case (parse_digits 0 (take 2 s),
                  if 5 \<le> n then parse_digits 0 (take 2 (drop 3 s)) else Some 0,
                  if 8 \<le> n then parse_digits 0 (take 2 (drop 6 s)) else Some 0,
                  if 12 \<le> n then parse_digits 0 (drop 9 s) else Some 0) of
              (Some h, Some m, Some sec, Some f) \<Rightarrow>
                Some (h, m, sec, if n = 12 then f * 1000 else f)
            | _ \<Rightarrow> None))"

text \<open>\<open>str.find\<close>: the index of the first occurrence.\<close>

definition find_char :: "char \<Rightarrow> string \<Rightarrow> nat option" where
  "find_char c s =
     (if c \<in> set s then Some (length (takeWhile (\<lambda>x. x \<noteq> c) s)) else None)"

text \<open>The zone starts at the first \<open>-\<close> of the time string, or else at its first \<open>+\<close>.\<close>

definition tz_position :: "string \<Rightarrow> nat option" where
  "tz_position tstr =
     (case find_char (CHR ''-'') tstr of
        Some i \<Rightarrow> Some i
      | None \<Rightarrow> find_char (CHR ''+'') tstr)"

definition parse_isoformat_time ::
    "string \<Rightarrow> ((nat \<times> nat \<times> nat \<times> nat) \<times> int option) option" where
  "parse_isoformat_time tstr =
     (if length tstr < 2 then None
      else (case tz_position tstr of
              None \<Rightarrow> map_option (\<lambda>c. (c, None)) (parse_hh_mm_ss_ff tstr)
            | Some i \<Rightarrow>
               (case parse_hh_mm_ss_ff (take i tstr) of
                  None \<Rightarrow> None
                | Some c \<Rightarrow>
                   (let tzstr = drop (Suc i) tstr in
                    if \<not> (length tzstr = 5 \<or> length tzstr = 8 \<or> length tzstr = 15)
                    then None
                    else (case parse_hh_mm_ss_ff tzstr of
                            None \<Rightarrow> None
                          | Some (h, m, sec, f) \<Rightarrow>
                             (let off = (int h * 3600 + int m * 60 + int sec) * 1000000
                                        + int f;
                                  d = (if tstr ! i = CHR ''-'' then - off else off)
                              in if off = 0 then Some (c, Some 0)
                                 else if valid_offset d then Some (c, Some d)
                                 else None))))))"

definition fromisoformat :: "string \<Rightarrow> datetime option" where
  "fromisoformat date_string =
     (case parse_isoformat_date (take 10 date_string) of
        None \<Rightarrow> None
      | Some (y, m, d) \<Rightarrow>
         (case (if drop 11 date_string = [] then Some ((0, 0, 0, 0), None)
                else parse_isoformat_time (drop 11 date_string)) of
            None \<Rightarrow> None
          | Some ((hh, mi, ss, us), tz) \<Rightarrow>
             (let t = \<lparr>year = y, month = m, day = d, hour = hh, minute = mi,
                       second = ss, microsecond = us, tzinfo = tz\<rparr>
              in if valid_datetime t then Some t else None)))"

section \<open>Request validation\<close>

text \<open>
  The framework validates a decoded JSON body against the handler's model before it
  calls the handler. The structure it demands is the model's: an object, with every
  field that has no default, a list where the model says \<open>List\<close>, an object for a nested
  model; a key the model does not declare is ignored. How it reads a scalar of a
  declared type (\<open>str\<close>, \<open>int\<close>) is the validation library's matter and is a parameter
  here: \<open>validate_str v\<close> and \<open>validate_int v\<close> give the field's value, or \<open>None\<close> when the
  library rejects \<open>v\<close> for that type.
\<close>

record validators =
  validate_str :: "pyval \<Rightarrow> string option"
  validate_int :: "pyval \<Rightarrow> int option"

text \<open>One instance: a JSON string for \<open>str\<close>, a JSON integer for \<open>int\<close>, nothing else.\<close>

definition exact_validators :: validators where
  "exact_validators =
     \<lparr>validate_str = (\<lambda>v. case v of PStr x \<Rightarrow> Some x | _ \<Rightarrow> None),
      validate_int = (\<lambda>v. case v of PInt i \<Rightarrow> Some i | _ \<Rightarrow> None)\<rparr>"

text \<open>A required field: present, and accepted for its type.\<close>

definition required_str :: "validators \<Rightarrow> pydict \<Rightarrow> string \<Rightarrow> string option" where
  "required_str V d k = (case map_of d k of None \<Rightarrow> None | Some v \<Rightarrow> validate_str V v)"

definition required_int :: "validators \<Rightarrow> pydict \<Rightarrow> string \<Rightarrow> int option" where
  "required_int V d k = (case map_of d k of None \<Rightarrow> None | Some v \<Rightarrow> validate_int V v)"

text \<open>\<open>Optional[str] = None\<close>: absent or \<open>null\<close> is \<open>None\<close>; the outer \<open>None\<close> is a rejection.\<close>

definition optional_str :: "validators \<Rightarrow> pydict \<Rightarrow> string \<Rightarrow> string option option" where
  "optional_str V d k =
     (case map_of d k of
        None \<Rightarrow> Some None
      | Some PNone \<Rightarrow> Some None
      | Some v \<Rightarrow> map_option Some (validate_str V v))"

definition validate_Answer :: "validators \<Rightarrow> pyval \<Rightarrow> Answer option" where
  "validate_Answer V v =
     (case v of
        PDict d \<Rightarrow>
          (case (required_int V d ''question_id'', required_int V d ''value'') of
             (Some q, Some x) \<Rightarrow> Some \<lparr>question_id = q, answer_value = x\<rparr>
           | _ \<Rightarrow> None)
      | _ \<Rightarrow> None)"

definition validate_answers :: "validators \<Rightarrow> pydict \<Rightarrow> Answer list option" where
  "validate_answers V d =
     (case map_of d ''answers'' of
        Some (PList xs) \<Rightarrow> those (map (validate_Answer V) xs)
      | _ \<Rightarrow> None)"

definition validate_AssessmentSubmission ::
    "validators \<Rightarrow> pyval \<Rightarrow> AssessmentSubmission option" where
  "validate_AssessmentSubmission V body =
     (case body of
        PDict d \<Rightarrow>
          (case (required_str V d ''name'', required_str V d ''age'',
                 required_str V d ''gender'', required_str V d ''date'',
                 required_str V d ''mobile'', validate_answers V d) of
             (Some n, Some a, Some g, Some dt, Some m, Some xs) \<Rightarrow>
               Some \<lparr>AssessmentSubmission.name = n, age = a, gender = g, date = dt,
                     mobile = m, answers = xs\<rparr>
           | _ \<Rightarrow> None)
      | _ \<Rightarrow> None)"

definition validate_ContactRequestCreate ::
    "validators \<Rightarrow> pyval \<Rightarrow> ContactRequestCreate option" where
  "validate_ContactRequestCreate V body =
     (case body of
        PDict d \<Rightarrow>
          (case (required_str V d ''name'', required_str V d ''mobile'',
                 optional_str V d ''email'', required_str V d ''message'') of
             (Some n, Some m, Some e, Some msg) \<Rightarrow>
               Some \<lparr>ContactRequestCreate.name = n, mobile = m, email = e, message = msg\<rparr>
           | _ \<Rightarrow> None)
      | _ \<Rightarrow> None)"

section \<open>Scoring\<close>

text \<open>Python's \<open>sum\<close>: a left fold of \<open>+\<close> that starts at 0.\<close>

definition py_sum :: "int list \<Rightarrow> int" where
  "py_sum xs = foldl (+) 0 xs"

definition calculate_score_and_result :: "Answer list \<Rightarrow> int \<times> string" where
  "calculate_score_and_result as =
     (let total_score = py_sum (map answer_value as) in
      (total_score,
       if total_score \<le> 28 then ''Ama not present''
       else if total_score \<le> 42 then ''Ama slightly present''
       else ''Ama Present''))"

section \<open>Admin login\<close>

definition ADMIN_USERNAME :: string where
  "ADMIN_USERNAME = ''admin_kamch''"

definition ADMIN_PASSWORD :: string where
  "ADMIN_PASSWORD = ''admin_kamch123''"

definition admin_login :: "AdminLogin \<Rightarrow> failure + AdminLoginResponse" where
  "admin_login login =
     (if username login = ADMIN_USERNAME \<and> password login = ADMIN_PASSWORD
      then Inr \<lparr>success = True, message = ''Login successful''\<rparr>
      else Inl (HTTPException 401 ''Invalid credentials''))"

section \<open>Submission handlers\<close>

text \<open>\<open>model_dump()\<close>: the fields in the order of their declaration, nested models as
  dictionaries.\<close>

definition Answer_model_dump :: "Answer \<Rightarrow> pyval" where
  "Answer_model_dump a =
     PDict [(''question_id'', PInt (question_id a)), (''value'', PInt (answer_value a))]"

definition Assessment_model_dump :: "Assessment \<Rightarrow> pydict" where
  "Assessment_model_dump a =
     [(''id'', PStr (Assessment.id' a)),
      (''name'', PStr (Assessment.name a)),
      (''age'', PStr (Assessment.age a)),
      (''gender'', PStr (Assessment.gender a)),
      (''date'', PStr (Assessment.date a)),
      (''mobile'', PStr (Assessment.mobile a)),
      (''answers'', PList (map Answer_model_dump (Assessment.answers a))),
      (''score'', PInt (score a)),
      (''result'', PStr (result a)),
      (''timestamp'', PDatetime (Assessment.timestamp a))]"

definition ContactRequest_model_dump :: "ContactRequest \<Rightarrow> pydict" where
  "ContactRequest_model_dump c =
     [(''id'', PStr (ContactRequest.id' c)),
      (''name'', PStr (ContactRequest.name c)),
      (''mobile'', PStr (ContactRequest.mobile c)),
      (''email'', (case ContactRequest.email c of None \<Rightarrow> PNone | Some e \<Rightarrow> PStr e)),
      (''message'', PStr (ContactRequest.message c)),
      (''timestamp'', PDatetime (ContactRequest.timestamp c))]"

text \<open>
  The document \<open>create_assessment\<close> hands to \<open>insert_one\<close> (lines 119 to 123): the
  dump of the record, with the \<open>datetime\<close> under \<open>timestamp\<close> replaced by its
  \<open>isoformat()\<close>. After \<open>model_dump\<close> the answers are dictionaries already, none of
  which has an attribute \<open>model_dump\<close>, so the comprehension of line 123 rebuilds the
  same list.
\<close>

definition assessment_doc :: "Assessment \<Rightarrow> pydict" where
  "assessment_doc a =
     AList.update ''timestamp'' (PStr (isoformat (Assessment.timestamp a)))
       (Assessment_model_dump a)"

definition contact_doc :: "ContactRequest \<Rightarrow> pydict" where
  "contact_doc c =
     AList.update ''timestamp'' (PStr (isoformat (ContactRequest.timestamp c)))
       (ContactRequest_model_dump c)"

text \<open>
  \<open>create_assessment\<close> (lines 101 to 127), on a validated submission: the score and the
  label, the record with the two default factories run, one \<open>insert_one\<close>, and the
  record as the answer.
\<close>

definition create_assessment :: "env \<Rightarrow> AssessmentSubmission \<Rightarrow> db \<Rightarrow> Assessment \<times> db" where
  "create_assessment e submission store =
     (case calculate_score_and_result (AssessmentSubmission.answers submission) of
        (score', result') \<Rightarrow>
          (let assessment =
                 \<lparr>Assessment.id' = uuid4 e,
                  name = AssessmentSubmission.name submission,
                  age = AssessmentSubmission.age submission,
                  gender = AssessmentSubmission.gender submission,
                  date = AssessmentSubmission.date submission,
                  mobile = AssessmentSubmission.mobile submission,
                  answers = AssessmentSubmission.answers submission,
                  score = score',
                  result = result',
                  timestamp = utcnow e\<rparr>;
               doc = assessment_doc assessment
           in (assessment,
               store\<lparr>assessments := insert_one (assessments store) (object_id e) doc\<rparr>)))"

text \<open>\<open>create_contact_request\<close> (lines 130 to 145).\<close>

definition create_contact_request ::
    "env \<Rightarrow> ContactRequestCreate \<Rightarrow> db \<Rightarrow> ContactRequest \<times> db" where
  "create_contact_request e request store =
     (let contact_req =
            \<lparr>ContactRequest.id' = uuid4 e,
             name = ContactRequestCreate.name request,
             mobile = ContactRequestCreate.mobile request,
             email = ContactRequestCreate.email request,
             message = ContactRequestCreate.message request,
             timestamp = utcnow e\<rparr>;
          doc = contact_doc contact_req
      in (contact_req,
          store\<lparr>contact_requests :=
                   insert_one (contact_requests store) (object_id e) doc\<rparr>))"

text \<open>
  The two routes as the framework serves them: the body is validated first, and the
  handler runs only on a body that validates.
\<close>

definition post_assessments ::
    "validators \<Rightarrow> env \<Rightarrow> pyval \<Rightarrow> db \<Rightarrow> (failure + Assessment) \<times> db" where
  "post_assessments V e body store =
     (case validate_AssessmentSubmission V body of
        None \<Rightarrow> (Inl RequestValidationError, store)
      | Some submission \<Rightarrow>
          (case create_assessment e submission store of
             (assessment, store') \<Rightarrow> (Inr assessment, store')))"

definition post_contact_requests ::
    "validators \<Rightarrow> env \<Rightarrow> pyval \<Rightarrow> db \<Rightarrow> (failure + ContactRequest) \<times> db" where
  "post_contact_requests V e body store =
     (case validate_ContactRequestCreate V body of
        None \<Rightarrow> (Inl RequestValidationError, store)
      | Some request \<Rightarrow>
          (case create_contact_request e request store of
             (contact_req, store') \<Rightarrow> (Inr contact_req, store')))"

section \<open>Admin queries\<close>




text \<open>The body of the loop of \<open>get_all_assessments\<close> (lines 162 to 164).\<close>

definition parse_timestamp :: "pydict \<Rightarrow> failure + pydict" where
  "parse_timestamp assessment =
     (case map_of assessment ''timestamp'' of
        None \<Rightarrow> Inl KeyError
      | Some (PStr x) \<Rightarrow>
          (case fromisoformat x of
             None \<Rightarrow> Inl ValueError
           | Some t \<Rightarrow> Inr (AList.update ''timestamp'' (PDatetime t) assessment))
      | Some v \<Rightarrow> Inr assessment)"







section \<open>The validation contract in the words of the specification\<close>






section \<open>Sample requests\<close>

text \<open>
  The submission of the repository's API test (\<open>backend_test.py\<close>, lines 74 to 96), with
  three keys added that the model does not declare; the contact request of the same
  test; one reading of the environment for each.
\<close>

definition test_values :: "(int \<times> int) list" where
  "test_values =
     [(1, 3), (2, 2), (3, 1), (4, 4), (5, 2), (6, 3), (7, 1), (8, 2), (9, 3), (10, 1),
      (11, 2), (12, 3), (13, 2), (14, 1)]"


definition test_submission :: AssessmentSubmission where
  "test_submission =
     \<lparr>AssessmentSubmission.name = ''Test User'', age = ''18 yrs above'', gender = ''Male'',
      date = ''2025-01-15'', mobile = ''9876543210'',
      answers = map (\<lambda>(q, v). \<lparr>question_id = q, answer_value = v\<rparr>) test_values\<rparr>"

definition test_env :: env where
  "test_env =
     \<lparr>uuid4 = ''3f2b8c1e-5d4a-4e6f-9a7b-0c1d2e3f4a5b'',
      utcnow = \<lparr>year = 2025, month = 1, day = 15, hour = 10, minute = 30, second = 0,
                microsecond = 123456, tzinfo = Some 0\<rparr>,
      object_id = ''65a50a0c8f1b2c3d4e5f6a7b''\<rparr>"

definition test_env2 :: env where
  "test_env2 =
     \<lparr>uuid4 = ''9c0d1e2f-3a4b-4c5d-8e6f-7a8b9c0d1e2f'',
      utcnow = \<lparr>year = 2025, month = 1, day = 15, hour = 10, minute = 30, second = 1,
                microsecond = 0, tzinfo = Some 0\<rparr>,
      object_id = ''65a50a0d8f1b2c3d4e5f6a7c''\<rparr>"

definition test_assessment :: Assessment where
  "test_assessment =
     \<lparr>Assessment.id' = ''3f2b8c1e-5d4a-4e6f-9a7b-0c1d2e3f4a5b'',
      name = ''Test User'', age = ''18 yrs above'', gender = ''Male'',
      date = ''2025-01-15'', mobile = ''9876543210'',
      answers = map (\<lambda>(q, v). \<lparr>question_id = q, answer_value = v\<rparr>) test_values,
      score = 30, result = ''Ama slightly present'',
      timestamp = \<lparr>year = 2025, month = 1, day = 15, hour = 10, minute = 30, second = 0,
                   microsecond = 123456, tzinfo = Some 0\<rparr>\<rparr>"

definition test_assessment_stored :: pydict where
  "test_assessment_stored =
     [(''id'', PStr ''3f2b8c1e-5d4a-4e6f-9a7b-0c1d2e3f4a5b''),
      (''name'', PStr ''Test User''), (''age'', PStr ''18 yrs above''),
      (''gender'', PStr ''Male''), (''date'', PStr ''2025-01-15''),
      (''mobile'', PStr ''9876543210''),
      (''answers'',
       PList (map (\<lambda>(q, v). PDict [(''question_id'', PInt q), (''value'', PInt v)])
                test_values)),
      (''score'', PInt 30), (''result'', PStr ''Ama slightly present''),
      (''timestamp'', PStr ''2025-01-15T10:30:00.123456+00:00''),
      (''_id'', PObjectId ''65a50a0c8f1b2c3d4e5f6a7b'')]"

definition test_contact_body :: pyval where
  "test_contact_body =
     PDict [(''name'', PStr ''Test Contact''), (''mobile'', PStr ''9876543210''),
            (''email'', PStr ''test@example.com''),
            (''message'', PStr ''This is a test contact request'')]"

definition test_contact :: ContactRequest where
  "test_contact =
     \<lparr>ContactRequest.id' = ''9c0d1e2f-3a4b-4c5d-8e6f-7a8b9c0d1e2f'',
      name = ''Test Contact'', mobile = ''9876543210'', email = Some ''test@example.com'',
      message = ''This is a test contact request'',
      timestamp = \<lparr>year = 2025, month = 1, day = 15, hour = 10, minute = 30, second = 1,
                   microsecond = 0, tzinfo = Some 0\<rparr>\<rparr>"

definition test_contact_stored :: pydict where
  "test_contact_stored =
     [(''id'', PStr ''9c0d1e2f-3a4b-4c5d-8e6f-7a8b9c0d1e2f''),
      (''name'', PStr ''Test Contact''), (''mobile'', PStr ''9876543210''),
      (''email'', PStr ''test@example.com''),
      (''message'', PStr ''This is a test contact request''),
      (''timestamp'', PStr ''2025-01-15T10:30:01+00:00''),
      (''_id'', PObjectId ''65a50a0d8f1b2c3d4e5f6a7c'')]"

definition empty_db :: db where
  "empty_db = \<lparr>assessments = [], contact_requests = []\<rparr>"

section \<open>Notions used in the proofs\<close>

text \<open>The \<open>w\<close> last decimal digits of \<open>n\<close>: what \<open>'%0wd'\<close> prints of a number below \<open>10 ^ w\<close>.\<close>

fun digits :: "nat \<Rightarrow> nat \<Rightarrow> string" where
  "digits 0 n = []"
| "digits (Suc w) n = digits w (n div 10) @ [digit_char (n mod 10)]"

text \<open>The date part and the time part of the \<open>isoformat()\<close> of a UTC value.\<close>

definition iso_date :: "datetime \<Rightarrow> string" where
  "iso_date t = digits 4 (year t) @ ''-'' @ digits 2 (month t) @ ''-'' @ digits 2 (day t)"

definition iso_time :: "datetime \<Rightarrow> string" where
  "iso_time t =
     digits 2 (hour t) @ '':'' @ digits 2 (minute t) @ '':'' @ digits 2 (second t)
     @ (if microsecond t \<noteq> 0 then ''.'' @ digits 6 (microsecond t) else [])"





section \<open>The listing and the export in the words of the specification\<close>








section \<open>Sample stores\<close>







section \<open>Properties of the scoring function\<close>

lemma foldl_add_sum_list: "foldl (+) (a::int) xs = a + sum_list xs"
  by (induction xs arbitrary: a) simp_all

lemma py_sum_sum_list: "py_sum xs = sum_list xs"
  by (simp add: py_sum_def foldl_add_sum_list)

text \<open>
  C1. For every sequence of answers the total is the plain sum of the answer values, and
  the label follows from the total by the inclusive thresholds 28 and 42: at most 28 is
  \<open>Ama not present\<close>, above 28 and at most 42 is \<open>Ama slightly present\<close>, above 42 is
  \<open>Ama Present\<close>. So 28 is \<open>Ama not present\<close>, 29 and 42 are \<open>Ama slightly present\<close>, and
  43 is \<open>Ama Present\<close>.
\<close>

theorem calculate_score_and_result_thresholds:
  "(case calculate_score_and_result as of (tot, label) \<Rightarrow>
       tot = (\<Sum>a\<leftarrow>as. answer_value a)
     \<and> (tot \<le> 28 \<longrightarrow> label = ''Ama not present'')
     \<and> (28 < tot \<and> tot \<le> 42 \<longrightarrow> label = ''Ama slightly present'')
     \<and> (42 < tot \<longrightarrow> label = ''Ama Present'')
     \<and> (tot = 28 \<longrightarrow> label = ''Ama not present'')
     \<and> (tot = 29 \<longrightarrow> label = ''Ama slightly present'')
     \<and> (tot = 42 \<longrightarrow> label = ''Ama slightly present'')
     \<and> (tot = 43 \<longrightarrow> label = ''Ama Present''))"
  by (simp add: calculate_score_and_result_def py_sum_sum_list Let_def)

theorem calculate_score_and_result_thresholds_witness:
  "calculate_score_and_result (replicate 14 \<lparr>question_id = 1, answer_value = 2\<rparr>)
     = (28, ''Ama not present'')
   \<and> calculate_score_and_result
       (\<lparr>question_id = 15, answer_value = 1\<rparr> # replicate 14 \<lparr>question_id = 1, answer_value = 2\<rparr>)
     = (29, ''Ama slightly present'')
   \<and> calculate_score_and_result (replicate 14 \<lparr>question_id = 1, answer_value = 3\<rparr>)
     = (42, ''Ama slightly present'')
   \<and> calculate_score_and_result
       (\<lparr>question_id = 15, answer_value = 1\<rparr> # replicate 14 \<lparr>question_id = 1, answer_value = 3\<rparr>)
     = (43, ''Ama Present'')"
  using calculate_score_and_result_thresholds
      [of "replicate 14 \<lparr>question_id = 1, answer_value = 2\<rparr>"]
    calculate_score_and_result_thresholds
      [of "\<lparr>question_id = 15, answer_value = 1\<rparr> # replicate 14 \<lparr>question_id = 1, answer_value = 2\<rparr>"]
    calculate_score_and_result_thresholds
      [of "replicate 14 \<lparr>question_id = 1, answer_value = 3\<rparr>"]
    calculate_score_and_result_thresholds
      [of "\<lparr>question_id = 15, answer_value = 1\<rparr> # replicate 14 \<lparr>question_id = 1, answer_value = 3\<rparr>"]
  by (auto simp: sum_list_replicate split: prod.splits)



section \<open>Properties of the admin login\<close>

text \<open>
  C6. A login succeeds exactly when the username and the password both equal the fixed
  admin credentials, character for character; every other request is answered with
  status 401, and a login has no third outcome.
\<close>

theorem admin_login_iff_credentials:
  "((\<exists>m. admin_login login = Inr \<lparr>success = True, message = m\<rparr>)
      \<longleftrightarrow> username login = ''admin_kamch'' \<and> password login = ''admin_kamch123'')
   \<and> (username login \<noteq> ''admin_kamch'' \<or> password login \<noteq> ''admin_kamch123''
        \<longrightarrow> admin_login login = Inl (HTTPException 401 ''Invalid credentials''))
   \<and> (http_status (admin_login login) = 200 \<and> (\<exists>r. admin_login login = Inr r \<and> success r)
        \<or> http_status (admin_login login) = 401 \<and> (\<exists>e. admin_login login = Inl e))"
  by (simp add: admin_login_def ADMIN_USERNAME_def ADMIN_PASSWORD_def http_status_def)

theorem admin_login_iff_credentials_witness:
  "admin_login \<lparr>username = ''admin_kamch'', password = ''admin_kamch123''\<rparr>
     = Inr \<lparr>success = True, message = ''Login successful''\<rparr>
   \<and> admin_login \<lparr>username = ''Admin_kamch'', password = ''admin_kamch123''\<rparr>
     = Inl (HTTPException 401 ''Invalid credentials'')
   \<and> admin_login \<lparr>username = ''admin_kamch'', password = ''admin_kamch123 ''\<rparr>
     = Inl (HTTPException 401 ''Invalid credentials'')"
  using admin_login_iff_credentials [of "\<lparr>username = ''admin_kamch'', password = ''admin_kamch123''\<rparr>"]
    admin_login_iff_credentials [of "\<lparr>username = ''Admin_kamch'', password = ''admin_kamch123''\<rparr>"]
    admin_login_iff_credentials [of "\<lparr>username = ''admin_kamch'', password = ''admin_kamch123 ''\<rparr>"]
  by (simp add: admin_login_def ADMIN_USERNAME_def ADMIN_PASSWORD_def)

section \<open>Evaluating the formats\<close>

lemma digit_char_simps:
  "digit_char 0 = CHR ''0''" "digit_char 1 = CHR ''1''" "digit_char 2 = CHR ''2''"
  "digit_char 3 = CHR ''3''" "digit_char 4 = CHR ''4''" "digit_char 5 = CHR ''5''"
  "digit_char 6 = CHR ''6''" "digit_char 7 = CHR ''7''" "digit_char 8 = CHR ''8''"
  "digit_char 9 = CHR ''9''" "digit_char (Suc 0) = CHR ''1''"
  by (simp_all add: digit_char_def)

lemmas eval_format =
  isoformat_def strftime_ymd_hms_def fmt_def dec.simps digit_char_simps format_offset_def

section \<open>Properties of the submission routes\<close>

lemma insert_one_assessment_doc:
  "insert_one coll oid (assessment_doc a) = coll @ [assessment_doc a @ [(''_id'', PObjectId oid)]]"
  by (simp add: insert_one_def assessment_doc_def Assessment_model_dump_def)

lemma insert_one_contact_doc:
  "insert_one coll oid (contact_doc c) = coll @ [contact_doc c @ [(''_id'', PObjectId oid)]]"
  by (simp add: insert_one_def contact_doc_def ContactRequest_model_dump_def)








lemma test_assessment_doc:
  "assessment_doc test_assessment @ [(''_id'', PObjectId ''65a50a0c8f1b2c3d4e5f6a7b'')]
     = test_assessment_stored"
  by (simp add: assessment_doc_def Assessment_model_dump_def test_assessment_def
      test_assessment_stored_def Answer_model_dump_def eval_format split: prod.splits)

lemma create_test_assessment:
  "create_assessment test_env test_submission empty_db
     = (test_assessment, \<lparr>assessments = [test_assessment_stored], contact_requests = []\<rparr>)"
proof -
  have "calculate_score_and_result (AssessmentSubmission.answers test_submission)
          = (30, ''Ama slightly present'')"
    by (simp add: calculate_score_and_result_def test_submission_def test_values_def py_sum_def)
  then have "fst (create_assessment test_env test_submission empty_db) = test_assessment"
    by (simp add: create_assessment_def Let_def test_assessment_def test_env_def
        test_submission_def)
  then show ?thesis
    using test_assessment_doc
    by (simp add: create_assessment_def Let_def insert_one_assessment_doc empty_db_def
        test_env_def split: prod.splits)
qed





text \<open>
  C7. On every validated contact request \<open>create_contact_request\<close> answers with a record
  that has the generated \<open>id\<close>, the clock's \<open>timestamp\<close> and the submitted fields, and
  appends the document of that record to \<open>contact_requests\<close>, leaving \<open>assessments\<close> as it
  was. A body with \<open>name\<close>, \<open>mobile\<close> and \<open>message\<close> and no \<open>email\<close> validates, with \<open>email\<close>
  absent. A body without one of the three required fields is answered with the
  validation error, and nothing is written.
\<close>

theorem create_contact_request_record:
  "(case create_contact_request e request store of
      (c, store') \<Rightarrow>
        ContactRequest.id' c = uuid4 e
      \<and> ContactRequest.timestamp c = utcnow e
      \<and> ContactRequest.name c = ContactRequestCreate.name request
      \<and> ContactRequest.mobile c = ContactRequestCreate.mobile request
      \<and> ContactRequest.email c = ContactRequestCreate.email request
      \<and> ContactRequest.message c = ContactRequestCreate.message request
      \<and> contact_requests store' =
            contact_requests store @ [contact_doc c @ [(''_id'', PObjectId (object_id e))]]
      \<and> assessments store' = assessments store
      \<and> (\<forall>V body. validate_ContactRequestCreate V body = Some request \<longrightarrow>
             post_contact_requests V e body store = (Inr c, store')))
   \<and> (\<forall>V d n m msg.
         required_str V d ''name'' = Some n \<and> required_str V d ''mobile'' = Some m
         \<and> required_str V d ''message'' = Some msg \<and> map_of d ''email'' = None \<longrightarrow>
         validate_ContactRequestCreate V (PDict d)
           = Some \<lparr>ContactRequestCreate.name = n, mobile = m, email = None, message = msg\<rparr>)
   \<and> (\<forall>V d. map_of d ''name'' = None \<or> map_of d ''mobile'' = None
               \<or> map_of d ''message'' = None \<longrightarrow>
         post_contact_requests V e (PDict d) store = (Inl RequestValidationError, store))"
proof (intro conjI allI impI)
  show "case create_contact_request e request store of
      (c, store') \<Rightarrow>
        ContactRequest.id' c = uuid4 e
      \<and> ContactRequest.timestamp c = utcnow e
      \<and> ContactRequest.name c = ContactRequestCreate.name request
      \<and> ContactRequest.mobile c = ContactRequestCreate.mobile request
      \<and> ContactRequest.email c = ContactRequestCreate.email request
      \<and> ContactRequest.message c = ContactRequestCreate.message request
      \<and> contact_requests store' =
            contact_requests store @ [contact_doc c @ [(''_id'', PObjectId (object_id e))]]
      \<and> assessments store' = assessments store
      \<and> (\<forall>V body. validate_ContactRequestCreate V body = Some request \<longrightarrow>
             post_contact_requests V e body store = (Inr c, store'))"
    by (simp add: create_contact_request_def insert_one_contact_doc
        post_contact_requests_def Let_def)
next
  fix V d n m msg
  assume "required_str V d ''name'' = Some n \<and> required_str V d ''mobile'' = Some m
         \<and> required_str V d ''message'' = Some msg \<and> map_of d ''email'' = None"
  then show "validate_ContactRequestCreate V (PDict d)
           = Some \<lparr>ContactRequestCreate.name = n, mobile = m, email = None, message = msg\<rparr>"
    by (simp add: validate_ContactRequestCreate_def optional_str_def)
next
  fix V :: validators and d :: pydict
  assume "map_of d ''name'' = None \<or> map_of d ''mobile'' = None
               \<or> map_of d ''message'' = None"
  then have "required_str V d ''name'' = None \<or> required_str V d ''mobile'' = None
      \<or> required_str V d ''message'' = None"
    by (auto simp: required_str_def)
  then have "validate_ContactRequestCreate V (PDict d) = None"
    by (auto simp: validate_ContactRequestCreate_def split: option.splits)
  then show "post_contact_requests V e (PDict d) store = (Inl RequestValidationError, store)"
    by (simp add: post_contact_requests_def)
qed

lemma test_contact_doc:
  "contact_doc test_contact @ [(''_id'', PObjectId ''65a50a0d8f1b2c3d4e5f6a7c'')]
     = test_contact_stored"
  by (simp add: contact_doc_def ContactRequest_model_dump_def test_contact_def
      test_contact_stored_def eval_format)

theorem create_contact_request_record_witness:
  "validate_ContactRequestCreate exact_validators test_contact_body
     = Some \<lparr>ContactRequestCreate.name = ''Test Contact'', mobile = ''9876543210'',
             email = Some ''test@example.com'',
             message = ''This is a test contact request''\<rparr>
   \<and> post_contact_requests exact_validators test_env2 test_contact_body empty_db
       = (Inr test_contact, \<lparr>assessments = [], contact_requests = [test_contact_stored]\<rparr>)
   \<and> validate_ContactRequestCreate exact_validators
        (PDict [(''name'', PStr ''Test''), (''mobile'', PStr ''1''), (''message'', PStr ''m'')])
       = Some \<lparr>ContactRequestCreate.name = ''Test'', mobile = ''1'', email = None,
               message = ''m''\<rparr>
   \<and> map_of [(''name'', PStr ''Test'')] ''mobile'' = None
   \<and> post_contact_requests exact_validators test_env2 (PDict [(''name'', PStr ''Test'')])
        empty_db = (Inl RequestValidationError, empty_db)"
proof -
  let ?req = "\<lparr>ContactRequestCreate.name = ''Test Contact'', mobile = ''9876543210'',
             email = Some ''test@example.com'',
             message = ''This is a test contact request''\<rparr>"
  have v: "validate_ContactRequestCreate exact_validators test_contact_body = Some ?req"
    by (simp add: validate_ContactRequestCreate_def test_contact_body_def
        exact_validators_def required_str_def optional_str_def)
  have c: "create_contact_request test_env2 ?req empty_db
             = (test_contact, \<lparr>assessments = [], contact_requests = [test_contact_stored]\<rparr>)"
    using test_contact_doc
    by (simp add: create_contact_request_def Let_def insert_one_contact_doc empty_db_def
        test_env2_def test_contact_def)
  have r: "required_str exact_validators
             [(''name'', PStr ''Test''), (''mobile'', PStr ''1''), (''message'', PStr ''m'')]
             ''name'' = Some ''Test''"
      "required_str exact_validators
             [(''name'', PStr ''Test''), (''mobile'', PStr ''1''), (''message'', PStr ''m'')]
             ''mobile'' = Some ''1''"
      "required_str exact_validators
             [(''name'', PStr ''Test''), (''mobile'', PStr ''1''), (''message'', PStr ''m'')]
             ''message'' = Some ''m''"
    by (simp_all add: required_str_def exact_validators_def)
  from create_contact_request_record [of test_env2 ?req empty_db] v c r
  show ?thesis
    by simp
qed

text \<open>
  C10. An empty list of answers is accepted: its total is 0 and its label is
  \<open>Ama not present\<close>, and a body whose string fields validate and whose \<open>answers\<close> is the
  empty list is served, the record being stored with score 0.
\<close>

theorem empty_answers_accepted:
  "calculate_score_and_result [] = (0, ''Ama not present'')
   \<and> (required_str V d ''name'' = Some n \<and> required_str V d ''age'' = Some a
      \<and> required_str V d ''gender'' = Some g \<and> required_str V d ''date'' = Some dt
      \<and> required_str V d ''mobile'' = Some m \<and> map_of d ''answers'' = Some (PList []) \<longrightarrow>
      (\<exists>r. post_assessments V e (PDict d) store
              = (Inr r, store\<lparr>assessments := assessments store
                    @ [assessment_doc r @ [(''_id'', PObjectId (object_id e))]]\<rparr>)
           \<and> Assessment.answers r = [] \<and> score r = 0 \<and> result r = ''Ama not present''
           \<and> map_of (assessment_doc r) ''score'' = Some (PInt 0)
           \<and> map_of (assessment_doc r) ''answers'' = Some (PList [])))"
proof (intro conjI impI)
  show s: "calculate_score_and_result [] = (0, ''Ama not present'')"
    by (simp add: calculate_score_and_result_def py_sum_def)
  assume h: "required_str V d ''name'' = Some n \<and> required_str V d ''age'' = Some a
      \<and> required_str V d ''gender'' = Some g \<and> required_str V d ''date'' = Some dt
      \<and> required_str V d ''mobile'' = Some m \<and> map_of d ''answers'' = Some (PList [])"
  then have "validate_AssessmentSubmission V (PDict d)
      = Some \<lparr>AssessmentSubmission.name = n, age = a, gender = g, date = dt, mobile = m,
              answers = []\<rparr>"
    by (simp add: validate_AssessmentSubmission_def validate_answers_def)
  then show "\<exists>r. post_assessments V e (PDict d) store
              = (Inr r, store\<lparr>assessments := assessments store
                    @ [assessment_doc r @ [(''_id'', PObjectId (object_id e))]]\<rparr>)
           \<and> Assessment.answers r = [] \<and> score r = 0 \<and> result r = ''Ama not present''
           \<and> map_of (assessment_doc r) ''score'' = Some (PInt 0)
           \<and> map_of (assessment_doc r) ''answers'' = Some (PList [])"
    using s
    by (simp add: post_assessments_def create_assessment_def Let_def
        insert_one_assessment_doc)
      (simp add: assessment_doc_def Assessment_model_dump_def)
qed

theorem empty_answers_accepted_witness:
  "map_of [(''name'', PStr ''Test User''), (''age'', PStr ''18 yrs above''),
           (''gender'', PStr ''Male''), (''date'', PStr ''2025-01-15''),
           (''mobile'', PStr ''9876543210''), (''answers'', PList [])] ''answers''
     = Some (PList [])
   \<and> (\<exists>r. post_assessments exact_validators test_env
        (PDict [(''name'', PStr ''Test User''), (''age'', PStr ''18 yrs above''),
                (''gender'', PStr ''Male''), (''date'', PStr ''2025-01-15''),
                (''mobile'', PStr ''9876543210''), (''answers'', PList [])]) empty_db
       = (Inr r, \<lparr>assessments = [assessment_doc r
              @ [(''_id'', PObjectId ''65a50a0c8f1b2c3d4e5f6a7b'')]], contact_requests = []\<rparr>)
       \<and> Assessment.name r = ''Test User''
       \<and> Assessment.answers r = [] \<and> score r = 0 \<and> result r = ''Ama not present''
       \<and> map_of (assessment_doc r) ''score'' = Some (PInt 0))"
proof -
  let ?d = "[(''name'', PStr ''Test User''), (''age'', PStr ''18 yrs above''),
           (''gender'', PStr ''Male''), (''date'', PStr ''2025-01-15''),
           (''mobile'', PStr ''9876543210''), (''answers'', PList [])]"
  have r: "required_str exact_validators ?d ''name'' = Some ''Test User''"
    "required_str exact_validators ?d ''age'' = Some ''18 yrs above''"
    "required_str exact_validators ?d ''gender'' = Some ''Male''"
    "required_str exact_validators ?d ''date'' = Some ''2025-01-15''"
    "required_str exact_validators ?d ''mobile'' = Some ''9876543210''"
    "map_of ?d ''answers'' = Some (PList [])"
    by (simp_all add: required_str_def exact_validators_def)
  from empty_answers_accepted [of exact_validators ?d "''Test User''" "''18 yrs above''"
      "''Male''" "''2025-01-15''" "''9876543210''" test_env empty_db] r
  obtain x where
    "post_assessments exact_validators test_env (PDict ?d) empty_db
       = (Inr x, empty_db\<lparr>assessments := assessments empty_db
            @ [assessment_doc x @ [(''_id'', PObjectId (object_id test_env))]]\<rparr>)"
    "Assessment.answers x = []" "score x = 0" "result x = ''Ama not present''"
    "map_of (assessment_doc x) ''score'' = Some (PInt 0)"
    by auto
  moreover from this have "Assessment.name x = ''Test User''"
    using r by (auto simp: post_assessments_def validate_AssessmentSubmission_def
        validate_answers_def create_assessment_def Let_def split: prod.splits)
  ultimately show ?thesis
    using r(6) by (auto simp: empty_db_def test_env_def)
qed

section \<open>Decimal digits\<close>


lemma less_10_cases:
  "(d::nat) < 10 \<Longrightarrow> d = 0 \<or> d = 1 \<or> d = 2 \<or> d = 3 \<or> d = 4 \<or> d = 5 \<or> d = 6 \<or> d = 7 \<or> d = 8 \<or> d = 9"
  by arith

lemma digit_val_digit_char: "d < 10 \<Longrightarrow> digit_val (digit_char d) = Some d"
  by (drule less_10_cases) (auto simp: digit_val_def digit_char_def)



lemma digit_char_not_punct:
  "d < 10 \<Longrightarrow> digit_char d \<noteq> CHR ''-'' \<and> digit_char d \<noteq> CHR ''+''
     \<and> digit_char d \<noteq> CHR '':'' \<and> digit_char d \<noteq> CHR ''.''"
  by (drule less_10_cases) (auto simp: digit_char_def)

lemma fmt_1: "n < 10 \<Longrightarrow> fmt (Suc 0) n = [digit_char n]"
  by (simp add: fmt_def dec.simps)

lemma fmt_Suc:
  assumes "0 < w"
  shows "fmt (Suc w) n = fmt w (n div 10) @ [digit_char (n mod 10)]"
proof (cases "n < 10")
  case True
  have "replicate (w - Suc 0) (CHR ''0'') @ [CHR ''0''] = replicate w (CHR ''0'')"
    using assms by (cases w) (simp_all add: replicate_append_same)
  with True show ?thesis
    by (simp add: fmt_def dec.simps [of n] dec.simps [of 0] digit_char_def)
next
  case False
  then show ?thesis
    by (simp add: fmt_def dec.simps [of n])
qed

lemma fmt_digits: "0 < w \<Longrightarrow> n < 10 ^ w \<Longrightarrow> fmt w n = digits w n"
proof (induction w arbitrary: n)
  case 0
  then show ?case by simp
next
  case (Suc w)
  show ?case
  proof (cases "w = 0")
    case True
    with Suc.prems show ?thesis by (simp add: fmt_1)
  next
    case False
    from Suc.prems have "n div 10 < 10 ^ w"
      by (simp add: less_mult_imp_div_less mult.commute)
    with False Suc.IH [of "n div 10"] show ?thesis
      by (simp add: fmt_Suc)
  qed
qed

lemma length_digits [simp]: "length (digits w n) = w"
  by (induction w arbitrary: n) simp_all

lemma parse_digits_snoc:
  "parse_digits acc (xs @ [c]) =
     (case parse_digits acc xs of
        None \<Rightarrow> None
      | Some a \<Rightarrow> (case digit_val c of None \<Rightarrow> None | Some d \<Rightarrow> Some (10 * a + d)))"
  by (induction xs arbitrary: acc) (simp_all split: option.splits)

lemma parse_digits_digits:
  "parse_digits acc (digits w n) = Some (acc * 10 ^ w + n mod 10 ^ w)"
proof (induction w arbitrary: n)
  case 0
  then show ?case by simp
next
  case (Suc w)
  have "n mod (10 * 10 ^ w) = 10 * (n div 10 mod 10 ^ w) + n mod 10"
    by (rule mod_mult2_eq)
  then show ?case
    by (simp add: parse_digits_snoc Suc.IH digit_val_digit_char algebra_simps)
qed

lemma parse_digits_0_digits: "n < 10 ^ w \<Longrightarrow> parse_digits 0 (digits w n) = Some n"
  by (simp add: parse_digits_digits)

lemma digits_chars: "c \<in> set (digits w n) \<Longrightarrow> \<exists>d<10. c = digit_char d"
proof (induction w arbitrary: n)
  case 0
  then show ?case by simp
next
  case (Suc w)
  then show ?case
    by (auto intro: exI [of _ "n mod 10"])
qed

lemma digits_no_punct:
  assumes "c \<in> set (digits w n)"
  shows "c \<noteq> CHR ''-''" "c \<noteq> CHR ''+''" "c \<noteq> CHR '':''" "c \<noteq> CHR ''.''"
proof -
  from digits_chars [OF assms] obtain d where d: "d < 10" "c = digit_char d"
    by auto
  from digit_char_not_punct [OF d(1)] d(2)
  show "c \<noteq> CHR ''-''" "c \<noteq> CHR ''+''" "c \<noteq> CHR '':''" "c \<noteq> CHR ''.''"
    by simp_all
qed






section \<open>The round trip of a timestamp\<close>

lemma days_in_month_le: "days_in_month y m \<le> 31"
  by (simp add: days_in_month_def)

lemma format_offset_utc: "format_offset (Some 0) = ''+00:00''"
  by (simp add: format_offset_def fmt_def dec.simps digit_char_simps)

lemma utc_datetime_bounds:
  assumes "utc_datetime t"
  shows "year t < 10 ^ 4" "month t < 10 ^ 2" "day t < 10 ^ 2" "hour t < 10 ^ 2"
    "minute t < 10 ^ 2" "second t < 10 ^ 2" "microsecond t < 10 ^ 6" "tzinfo t = Some 0"
  using assms days_in_month_le [of "year t" "month t"]
  by (simp_all add: utc_datetime_def valid_datetime_def)

lemma isoformat_utc:
  assumes "utc_datetime t"
  shows "isoformat t = iso_date t @ ''T'' @ iso_time t @ ''+00:00''"
  using utc_datetime_bounds [OF assms]
  by (simp add: isoformat_def iso_date_def iso_time_def fmt_digits format_offset_utc)

lemma length_iso_date [simp]: "length (iso_date t) = 10"
  by (simp add: iso_date_def)

lemma parse_isoformat_date_iso_date:
  assumes "utc_datetime t"
  shows "parse_isoformat_date (iso_date t) = Some (year t, month t, day t)"
  using utc_datetime_bounds [OF assms]
  by (simp add: parse_isoformat_date_def iso_date_def nth_append parse_digits_0_digits)

lemma parse_hh_mm_ss_ff_iso_time:
  assumes "utc_datetime t"
  shows "parse_hh_mm_ss_ff (iso_time t) = Some (hour t, minute t, second t, microsecond t)"
  using utc_datetime_bounds [OF assms]
  by (simp add: parse_hh_mm_ss_ff_def iso_time_def nth_append parse_digits_0_digits Let_def)

lemma iso_time_no_sign: "CHR ''-'' \<notin> set (iso_time t)" "CHR ''+'' \<notin> set (iso_time t)"
  by (auto simp: iso_time_def dest: digits_no_punct)

lemma tz_position_utc:
  "CHR ''-'' \<notin> set xs \<Longrightarrow> CHR ''+'' \<notin> set xs \<Longrightarrow>
     tz_position (xs @ ''+00:00'') = Some (length xs)"
proof -
  assume a: "CHR ''-'' \<notin> set xs" "CHR ''+'' \<notin> set xs"
  then have "takeWhile (\<lambda>x. x \<noteq> CHR ''+'') (xs @ ''+00:00'') = xs"
    by (subst takeWhile_append2) auto
  with a show ?thesis
    by (simp add: tz_position_def find_char_def)
qed

lemma parse_zero_offset: "parse_hh_mm_ss_ff ''00:00'' = Some (0, 0, 0, 0)"
  by (simp add: parse_hh_mm_ss_ff_def digit_val_def)

lemma length_iso_time: "2 \<le> length (iso_time t)"
  by (simp add: iso_time_def)

lemma parse_isoformat_time_utc:
  assumes "utc_datetime t"
  shows "parse_isoformat_time (iso_time t @ ''+00:00'')
           = Some ((hour t, minute t, second t, microsecond t), Some 0)"
  using length_iso_time [of t]
  by (simp add: parse_isoformat_time_def tz_position_utc iso_time_no_sign
      parse_hh_mm_ss_ff_iso_time [OF assms] parse_zero_offset)

lemma fromisoformat_isoformat:
  assumes "utc_datetime t"
  shows "fromisoformat (isoformat t) = Some t"
proof -
  have v: "valid_datetime t" and z: "tzinfo t = Some 0"
    using assms by (simp_all add: utc_datetime_def)
  have "\<lparr>year = year t, month = month t, day = day t, hour = hour t,
          minute = minute t, second = second t, microsecond = microsecond t,
          tzinfo = tzinfo t\<rparr> = t"
    by simp
  with z have r: "\<lparr>year = year t, month = month t, day = day t, hour = hour t,
          minute = minute t, second = second t, microsecond = microsecond t,
          tzinfo = Some 0\<rparr> = t"
    by simp
  show ?thesis
    using v
    by (simp add: fromisoformat_def isoformat_utc [OF assms] Let_def r
        parse_isoformat_date_iso_date [OF assms] parse_isoformat_time_utc [OF assms])
qed

lemma update_timestamp_model_dump:
  "AList.update ''timestamp'' (PDatetime (Assessment.timestamp a)) (assessment_doc a)
     = Assessment_model_dump a"
  by (simp add: assessment_doc_def Assessment_model_dump_def)

lemma map_of_assessment_doc_timestamp:
  "map_of (assessment_doc a) ''timestamp'' = Some (PStr (isoformat (Assessment.timestamp a)))"
  by (simp add: assessment_doc_def Assessment_model_dump_def)

lemma parse_timestamp_assessment_doc:
  "utc_datetime (Assessment.timestamp a) \<Longrightarrow>
     parse_timestamp (assessment_doc a) = Inr (Assessment_model_dump a)"
  by (simp add: parse_timestamp_def map_of_assessment_doc_timestamp fromisoformat_isoformat
      update_timestamp_model_dump)

lemma timestamp_create_assessment:
  "Assessment.timestamp (fst (create_assessment e submission store)) = utcnow e"
  by (simp add: create_assessment_def Let_def split: prod.splits)

text \<open>
  C8. A timestamp stamped at the creation of a record is a reading of the UTC clock.
  Written with \<open>isoformat()\<close> and read back with \<open>fromisoformat\<close> it is the same value,
  zone included; so the document that \<open>create_assessment\<close> stores, read back by the loop of
  \<open>get_all_assessments\<close>, is the dump of the record with its \<open>datetime\<close>.
\<close>

theorem timestamp_round_trip:
  assumes "utc_datetime (utcnow e)"
  shows "fromisoformat (isoformat (utcnow e)) = Some (utcnow e)
       \<and> (case create_assessment e submission store of
            (a, store') \<Rightarrow>
              map_of (assessment_doc a) ''timestamp'' = Some (PStr (isoformat (utcnow e)))
            \<and> parse_timestamp (assessment_doc a) = Inr (Assessment_model_dump a)
            \<and> map_of (Assessment_model_dump a) ''timestamp'' = Some (PDatetime (utcnow e)))"
proof -
  obtain a store' where c: "create_assessment e submission store = (a, store')"
    by (cases "create_assessment e submission store")
  with timestamp_create_assessment [of e submission store]
  have t: "Assessment.timestamp a = utcnow e"
    by simp
  with assms have "parse_timestamp (assessment_doc a) = Inr (Assessment_model_dump a)"
    by (simp add: parse_timestamp_assessment_doc)
  moreover have "map_of (Assessment_model_dump a) ''timestamp'' = Some (PDatetime (utcnow e))"
    using t by (simp add: Assessment_model_dump_def)
  ultimately show ?thesis
    using assms c t by (simp add: fromisoformat_isoformat map_of_assessment_doc_timestamp)
qed

lemma utc_test_env: "utc_datetime (utcnow test_env)"
  by (simp add: utc_datetime_def valid_datetime_def test_env_def days_in_month_def
      valid_offset_def)

lemma utc_test_env2: "utc_datetime (utcnow test_env2)"
  by (simp add: utc_datetime_def valid_datetime_def test_env2_def days_in_month_def
      valid_offset_def)

lemma isoformat_test_env:
  "isoformat (utcnow test_env) = ''2025-01-15T10:30:00.123456+00:00''"
  by (simp add: test_env_def eval_format)

lemma isoformat_test_env2:
  "isoformat (utcnow test_env2) = ''2025-01-15T10:30:01+00:00''"
  by (simp add: test_env2_def eval_format)

theorem timestamp_round_trip_witness:
  "utc_datetime (utcnow test_env)
   \<and> isoformat (utcnow test_env) = ''2025-01-15T10:30:00.123456+00:00''
   \<and> fromisoformat ''2025-01-15T10:30:00.123456+00:00'' = Some (utcnow test_env)
   \<and> utc_datetime (utcnow test_env2)
   \<and> isoformat (utcnow test_env2) = ''2025-01-15T10:30:01+00:00''
   \<and> fromisoformat ''2025-01-15T10:30:01+00:00'' = Some (utcnow test_env2)
   \<and> parse_timestamp (assessment_doc test_assessment) = Inr (Assessment_model_dump test_assessment)"
  using timestamp_round_trip [OF utc_test_env, of test_submission empty_db]
    timestamp_round_trip [OF utc_test_env2, of test_submission empty_db]
    utc_test_env utc_test_env2 isoformat_test_env isoformat_test_env2 create_test_assessment
  by simp

section \<open>The order of the stored timestamps\<close>





section \<open>The listing\<close>
























section \<open>The export\<close>


















end
